theory Spec2Isabelle
  imports Main "HOL-Library.Sublist"
begin

section \<open>File handles and the shared MIME filter\<close>

text \<open>
  A browser \<open>File\<close> object is immutable: a name, a MIME type and a size in bytes. The
  widgets compare files with \<open>!==\<close>, which is identity of object references, so a file is
  denoted by its reference and its properties are read through a store that maps every
  reference to the object it points to. Two references may point to objects with equal
  properties and are still different files.

  JavaScript strings are modelled as \<open>string\<close>; the code only compares them, takes their
  length and cuts them by index, which is the same on any sequence of code units.
\<close>

type_synonym ref = nat

record file_handle =
  file_name :: string
  file_type :: string
  file_size :: int

type_synonym store = "ref \<Rightarrow> file_handle"

text \<open>
  \<open>String.prototype.substr(start, length)\<close>: a negative \<open>start\<close> counts from the end and is
  clamped at the beginning, a \<open>start\<close> beyond the end gives the empty string, and a missing
  \<open>length\<close> takes everything up to the end.
\<close>

definition substr :: "string \<Rightarrow> int \<Rightarrow> nat option \<Rightarrow> string" where
  "substr s start len =
     (let n = int (length s);
          st = (if start < 0 then max (n + start) 0 else min start n);
          tl = drop (nat st) s
      in case len of None \<Rightarrow> tl | Some l \<Rightarrow> take l tl)"

text \<open>
  The fields of \<open>OO.ui.SelectFileInputWidget\<close> that its methods read or write:
  \<open>this.value\<close> (the string value inherited from \<open>InputWidget\<close>), the text that the info
  field \<open>this.info\<close> holds, \<open>this.currentFile\<close>, \<open>this.accept\<close> (an array of patterns, or
  \<open>null\<close> for every type) and the disabled flag of \<open>OO.ui.Widget\<close>.
\<close>

record input_widget =
  inputValue :: string
  infoValue :: string
  currentFile :: "ref option"
  accept :: "string list option"
  disabled :: bool

text \<open>
  The \<open>for\<close> loop of \<open>isAllowedType\<close> over \<open>this.accept\<close>, from index \<open>i\<close> on: the first
  pattern that is equal to the type, or that ends in \<open>/*\<close> and whose text without the
  star starts the type, returns true; the end of the array returns false.
\<close>

fun accept_loop :: "string list \<Rightarrow> string \<Rightarrow> bool" where
  "accept_loop [] mimeType = False"
| "accept_loop (mimeTest # rest) mimeType =
     (if mimeTest = mimeType then True
      else if substr mimeTest (- 2) None = ''/*'' then
        (let mimeTest' = substr mimeTest 0 (Some (length mimeTest - 1))
         in if substr mimeType 0 (Some (length mimeTest')) = mimeTest' then True
            else accept_loop rest mimeType)
      else accept_loop rest mimeType)"

text \<open>
  \<open>isAllowedType(mimeType)\<close>: \<open>!this.accept\<close> holds only for \<open>null\<close> (an array, even an
  empty one, is truthy) and \<open>!mimeType\<close> holds for the empty string.
\<close>

definition isAllowedType :: "'a input_widget_scheme \<Rightarrow> string \<Rightarrow> bool" where
  "isAllowedType w mimeType =
     (case accept w of
        None \<Rightarrow> True
      | Some patterns \<Rightarrow> if mimeType = [] then True else accept_loop patterns mimeType)"

text \<open>
  The rule of the specification, in its own words: the type is equal to some pattern of
  the list, or some pattern ends in \<open>/*\<close> and the type starts with that pattern without
  its star.
\<close>

definition spec_allowed :: "string list \<Rightarrow> string \<Rightarrow> bool" where
  "spec_allowed patterns mimeType =
     (mimeType \<in> set patterns \<or>
      (\<exists>p \<in> set patterns. suffix ''/*'' p \<and> prefix (butlast p) mimeType))"

section \<open>The form-compatible widget\<close>

text \<open>
  What the widgets do to the page and to their listeners is recorded as a list of effects,
  in the order in which the calls are made. A call into a sub-widget (\<open>this.info\<close>,
  \<open>this.selectButton\<close>, the thumbnail element, the pending indicator mixed in from
  \<open>PendingElement\<close>) is one effect. Of the sub-widgets only the info field calls back
  into the widget, through its \<open>change\<close> event; that call is followed.
\<close>

datatype effect =
    Emit "ref option"
  | EmitValue string
  | Notify nat "ref option"
  | InfoSetValue string
  | InputCleared
  | EmptyClass bool
  | CanDropOff
  | PreventDefault
  | StopPropagation
  | ClickOff
  | ClickOn
  | PushPending
  | PopPending
  | ReadAsDataURL nat ref
  | ImgSrc nat string
  | ThumbnailBackground string
  | ThumbnailIcon
  | ThumbnailEmpty
  | ButtonDisabled bool
  | InfoDisabled bool

text \<open>
  The argument of \<open>SelectFileInputWidget.prototype.setValue\<close>: \<open>undefined\<close> during
  initialisation, \<open>null\<close> from \<open>onInfoChange\<close>, or a string. The empty string and \<open>null\<close>
  are falsy.
\<close>

datatype js_value = Undefined | Null | Str string

text \<open>
  \<open>SelectFileInputWidget.prototype.setValue\<close>. The method of the parent class
  \<open>InputWidget\<close>, called in the last branch with the empty string, is not among the
  sources and is the parameter \<open>super_setValue\<close>. The listeners of the emitted change are
  not followed for this widget.
\<close>

definition Input_setValue ::
  "(string \<Rightarrow> 'a input_widget_scheme \<Rightarrow> 'a input_widget_scheme \<times> effect list) \<Rightarrow>
   js_value \<Rightarrow> 'a input_widget_scheme \<Rightarrow> 'a input_widget_scheme \<times> effect list" where
  "Input_setValue super_setValue v w =
     (case v of
        Undefined \<Rightarrow> (w, [])
      | Null \<Rightarrow> super_setValue [] (w\<lparr>currentFile := None\<rparr>)
      | Str s \<Rightarrow>
          if s \<noteq> [] then
            (if inputValue w \<noteq> s then (w\<lparr>inputValue := s\<rparr>, [EmitValue s]) else (w, []))
          else super_setValue [] (w\<lparr>currentFile := None\<rparr>))"

text \<open>
  The file that a handler keeps from the first entry of a file list: none when the list
  is empty, none when \<open>isAllowedType\<close> refuses the type of the entry.
\<close>

definition filtered :: "store \<Rightarrow> 'a input_widget_scheme \<Rightarrow> ref option \<Rightarrow> ref option" where
  "filtered h w e =
     (case e of
        None \<Rightarrow> None
      | Some r \<Rightarrow> if \<not> isAllowedType w (file_type (h r)) then None else Some r)"

text \<open>
  \<open>SelectFileInputWidget.prototype.onFileSelected\<close>; the event is given by the first file
  of \<open>e.target.files\<close>, if there is one.
\<close>

definition Input_onFileSelected ::
  "store \<Rightarrow> ref option \<Rightarrow> 'a input_widget_scheme \<Rightarrow> 'a input_widget_scheme" where
  "Input_onFileSelected h e w = w\<lparr>currentFile := filtered h w e\<rparr>"

text \<open>
  Modelled from the spec: \<open>setDisabled\<close> of the parent classes \<open>OO.ui.InputWidget\<close> and
  \<open>OO.ui.Widget\<close>, which are not among the sources. It stores the flag that
  \<open>isDisabled()\<close> returns.
\<close>

definition Widget_setDisabled :: "bool \<Rightarrow> 'a input_widget_scheme \<Rightarrow> 'a input_widget_scheme" where
  "Widget_setDisabled d w = w\<lparr>disabled := d\<rparr>"

text \<open>
  \<open>SelectFileInputWidget.prototype.setDisabled\<close>: the parent method, then the button and
  the info field.
\<close>

definition Input_setDisabled ::
  "bool \<Rightarrow> 'a input_widget_scheme \<Rightarrow> 'a input_widget_scheme \<times> effect list" where
  "Input_setDisabled d w = (Widget_setDisabled d w, [ButtonDisabled d, InfoDisabled d])"

section \<open>The drag-and-drop widget\<close>

text \<open>
  \<open>OO.ui.SelectFileWidget\<close> extends the record of its parent class.

  \<^item> \<open>supported\<close> is the cached answer of the static \<open>isSupported()\<close>.
  \<^item> \<open>bindings\<close> is the list of listeners of the \<open>change\<close> event, in the order in which
    they were connected. The emitter (\<open>OO.EventEmitter\<close>, from the library the toolkit is
    built on) calls them synchronously in that order. \<open>UpdateUI\<close> is the method that the
    constructor connects; \<open>External k\<close> is a listener of the application, which is only
    recorded as notified.
  \<^item> \<open>jobs\<close> holds one entry for every call of \<open>loadAndGetImageUrl\<close>, for the closure
    that the call creates: the file whose read was started with \<open>reader.onload\<close> installed
    (none when the deferred was rejected at once), the source of every \<open>img\<close> element
    that \<open>reader.onload\<close> has created, and the state of the deferred. The index of a job in
    the list stands for the identity of that closure.
\<close>

datatype listener = UpdateUI | External nat

datatype deferred_state = Pending | Resolved string | Rejected

record job =
  reading :: "ref option"
  imgs :: "string list"
  deferred :: deferred_state

record select_widget = input_widget +
  supported :: bool
  inputClearing :: bool
  showDropTarget :: bool
  thumbnailSizeLimit :: int
  jobs :: "job list"
  bindings :: "listener list"

type_synonym handler = "select_widget \<Rightarrow> select_widget \<times> effect list"

text \<open>\<open>SelectFileWidget.prototype.getFilename\<close>.\<close>

definition getFilename :: "store \<Rightarrow> select_widget \<Rightarrow> string" where
  "getFilename h w = (case currentFile w of Some r \<Rightarrow> file_name (h r) | None \<Rightarrow> [])"

text \<open>
  \<open>loadAndGetImageUrl\<close>: a file that is present, whose type starts with \<open>image/\<close> and
  whose size is below the limit (in MiB) installs \<open>reader.onload\<close> and starts a read;
  anything else rejects the new deferred at once. The size and the limit are integers
  here; the source compares JavaScript numbers.
\<close>

definition loadAndGetImageUrl :: "store \<Rightarrow> handler" where
  "loadAndGetImageUrl h w =
     (case currentFile w of
        Some r \<Rightarrow>
          if prefix ''image/'' (file_type (h r)) \<and>
             file_size (h r) < thumbnailSizeLimit w * 1024 * 1024
          then (w\<lparr>jobs := jobs w @ [\<lparr>reading = Some r, imgs = [], deferred = Pending\<rparr>]\<rparr>,
                [ReadAsDataURL (length (jobs w)) r])
          else (w\<lparr>jobs := jobs w @ [\<lparr>reading = None, imgs = [], deferred = Rejected\<rparr>]\<rparr>, [])
      | None \<Rightarrow> (w\<lparr>jobs := jobs w @ [\<lparr>reading = None, imgs = [], deferred = Rejected\<rparr>]\<rparr>, []))"

text \<open>
  The callbacks that \<open>updateUI\<close> attaches to the promise with \<open>done\<close>, \<open>fail\<close> and
  \<open>always\<close>. They run once, when the deferred settles, or at the moment they are
  attached when it is settled already: the thumbnail or the fallback icon first, then
  \<open>popPending\<close>.
\<close>

fun callbacks :: "deferred_state \<Rightarrow> effect list" where
  "callbacks (Resolved url) = [ThumbnailBackground url, PopPending]"
| "callbacks Rejected = [ThumbnailIcon, PopPending]"
| "callbacks Pending = []"

text \<open>
  The part of \<open>SelectFileWidget.prototype.updateUI\<close> that follows the call of the parent
  method: the test of \<open>this.currentFile\<close> and its two branches.
\<close>

definition refresh :: "store \<Rightarrow> handler" where
  "refresh h w =
     (case currentFile w of
        Some r \<Rightarrow>
          if showDropTarget w then
            (let (w', es) = loadAndGetImageUrl h w
             in (w', [EmptyClass False, PushPending] @ es @
                     callbacks (deferred (last (jobs w'))) @ [ClickOff]))
          else (w, [EmptyClass False])
      | None \<Rightarrow>
          (w, (if showDropTarget w then [ClickOff, ClickOn, ThumbnailEmpty] else []) @
              [EmptyClass True]))"

text \<open>
  Modelled from the spec: \<open>this.info.setValue\<close>, the \<open>setValue\<close> of the toolkit's input
  widgets, which is not among the sources. It stores the text and, when the text differs
  from the one the field held, emits the \<open>change\<close> event of the field with the new text.
  The constructor of \<open>SelectFileInputWidget\<close> connects \<open>onInfoChange\<close> to that event; the
  listener is the first argument.
\<close>

definition info_setValue :: "(string \<Rightarrow> handler) \<Rightarrow> string \<Rightarrow> handler" where
  "info_setValue info_change v w =
     (if infoValue w = v then (w, [InfoSetValue v])
      else (let (w', es) = info_change v (w\<lparr>infoValue := v\<rparr>) in (w', InfoSetValue v # es)))"

text \<open>
  The methods \<open>updateUI\<close>, \<open>setValue\<close> and \<open>onInfoChange\<close> call each other: \<open>setValue\<close>
  emits \<open>change\<close>, which calls \<open>updateUI\<close>; \<open>updateUI\<close> sets the text of the info field,
  whose \<open>change\<close> calls \<open>onInfoChange\<close>; \<open>onInfoChange\<close> calls \<open>setValue(null)\<close> when
  the text is empty. Each method is first written with the method it calls as an
  argument.

  \<open>SelectFileWidget.prototype.updateUI\<close>, given the listener of the info field. The button
  exists in every constructed widget, so of the first test only \<open>isSupported()\<close> remains.
  The parent method is \<open>this.info.setValue(this.getFilename())\<close>, with the \<open>getFilename\<close>
  of this class.
\<close>

definition updateUI_with :: "(string \<Rightarrow> handler) \<Rightarrow> store \<Rightarrow> handler" where
  "updateUI_with info_change h w =
     (if \<not> supported w then (w, [])
      else
        (let (w1, es1) = info_setValue info_change (getFilename h w) w;
             (w2, es2) = refresh h w1
         in (w2, es1 @ es2)))"

text \<open>\<open>emit('change', v)\<close>, given the method \<open>updateUI\<close>: every listener of the list in turn.\<close>

fun dispatch_with :: "handler \<Rightarrow> ref option \<Rightarrow> listener list \<Rightarrow> handler" where
  "dispatch_with update v [] w = (w, [])"
| "dispatch_with update v (UpdateUI # ls) w =
     (let (w1, es1) = update w; (w2, es2) = dispatch_with update v ls w1 in (w2, es1 @ es2))"
| "dispatch_with update v (External k # ls) w =
     (let (w2, es2) = dispatch_with update v ls w in (w2, Notify k v # es2))"

text \<open>\<open>SelectFileWidget.prototype.setValue\<close>, given the method \<open>updateUI\<close>.\<close>

definition setValue_with :: "handler \<Rightarrow> ref option \<Rightarrow> handler" where
  "setValue_with update file w =
     (if currentFile w \<noteq> file then
        (let w1 = w\<lparr>currentFile := file\<rparr>;
             (w2, es) = dispatch_with update file (bindings w1) w1
         in (w2, Emit file # es))
      else (w, []))"

text \<open>
  \<open>onInfoChange\<close>, inherited from \<open>SelectFileInputWidget\<close>, given the method \<open>updateUI\<close>;
  \<open>this.setValue\<close> is the method of this class.
\<close>

definition onInfoChange_with :: "handler \<Rightarrow> string \<Rightarrow> handler" where
  "onInfoChange_with update v w = (if v = [] then setValue_with update None w else (w, []))"

text \<open>
  The calls end after one round. When \<open>onInfoChange\<close> is called from within \<open>updateUI\<close>,
  the info field already holds the empty text, and \<open>setValue(null)\<close> either returns at
  once or leaves no current file; the \<open>updateUI\<close> that it reaches then sets the text of
  the info field to the empty text it holds already, and the listener of the info field
  is not called again. \<open>updateUI_inner\<close> is \<open>updateUI\<close> at that depth, where the listener
  is out of reach. \<open>updateUI\<close>, \<open>setValue\<close> and \<open>onInfoChange\<close> are the methods of the
  source; that they satisfy the equations of the source, each with the others in place of
  the arguments, is proved below (\<open>updateUI_source\<close>).
\<close>

definition updateUI_inner :: "store \<Rightarrow> handler" where
  "updateUI_inner h = updateUI_with (\<lambda>v w. (w, [])) h"

definition updateUI :: "store \<Rightarrow> handler" where
  "updateUI h = updateUI_with (onInfoChange_with (updateUI_inner h)) h"

definition setValue :: "store \<Rightarrow> ref option \<Rightarrow> handler" where
  "setValue h = setValue_with (updateUI h)"

definition onInfoChange :: "store \<Rightarrow> string \<Rightarrow> handler" where
  "onInfoChange h = onInfoChange_with (updateUI h)"

text \<open>
  \<open>SelectFileWidget.prototype.onFileSelected\<close>. The flag \<open>inputClearing\<close> is raised only
  around the assignment that empties the native input.
\<close>

definition onFileSelected :: "store \<Rightarrow> ref option \<Rightarrow> handler" where
  "onFileSelected h e w =
     (if inputClearing w then (w, [])
      else
        (let file = filtered h w e;
             (w', es) = setValue h file (w\<lparr>inputClearing := False\<rparr>)
         in (w', InputCleared # es)))"

text \<open>
  \<open>SelectFileWidget.prototype.onDrop\<close>; the event is given by the first file of
  \<open>dataTransfer.files\<close>, if there is one. The handler returns \<open>false\<close> on every path.
\<close>

definition onDrop :: "store \<Rightarrow> ref option \<Rightarrow> handler" where
  "onDrop h e w =
     (if disabled w then (w, [PreventDefault, StopPropagation, CanDropOff])
      else case filtered h w e of
        Some r \<Rightarrow>
          (let (w', es) = setValue h (Some r) w
           in (w', [PreventDefault, StopPropagation, CanDropOff] @ es))
      | None \<Rightarrow> (w, [PreventDefault, StopPropagation, CanDropOff]))"

text \<open>\<open>SelectFileWidget.prototype.setDisabled\<close>.\<close>

definition setDisabled :: "bool \<Rightarrow> handler" where
  "setDisabled d w = Input_setDisabled (d \<or> \<not> supported w) w"

text \<open>
  Modelled from the spec: the constructor of the parent classes \<open>OO.ui.InputWidget\<close> and
  \<open>OO.ui.Widget\<close>, which are not among the sources. It applies \<open>config.disabled\<close> through
  the \<open>setDisabled\<close> method of the object under construction (the comment at the head of
  the \<open>SelectFileInputWidget\<close> constructor says that the parent constructor calls
  \<open>setDisabled\<close>); this is how the absence of file support shows as a disabled state at
  construction.
\<close>

definition Widget_construct :: "(bool \<Rightarrow> 'w \<Rightarrow> 'w \<times> effect list) \<Rightarrow> bool \<Rightarrow> 'w \<Rightarrow> 'w" where
  "Widget_construct setDisabled_method d w = fst (setDisabled_method d w)"

text \<open>
  The constructor of \<open>OO.ui.SelectFileWidget\<close>. The configuration is the one after the
  defaults have been merged in (\<open>accept\<close> is an array or \<open>null\<close>). A platform without
  file support forces \<open>config.disabled\<close> before the parent constructor runs, and the info
  field, empty when it is created, is given the text \<open>config.notsupported\<close>; its listener
  does nothing for a text that is not empty. The only listener connected to the \<open>change\<close>
  of the widget is \<open>updateUI\<close>; the calls of \<open>updateUI\<close> that end both constructors find
  no current file and an empty info field, and change no field.
\<close>

record config =
  cfg_accept :: "string list option"
  cfg_disabled :: bool
  cfg_notsupported :: string
  cfg_droppable :: bool
  cfg_showDropTarget :: bool
  cfg_thumbnailSizeLimit :: int

definition SelectFileWidget :: "bool \<Rightarrow> config \<Rightarrow> select_widget" where
  "SelectFileWidget isSupported config =
     (let config' = (if \<not> isSupported then config\<lparr>cfg_disabled := True\<rparr> else config);
          droppable = (cfg_droppable config' \<and> isSupported)
      in Widget_construct setDisabled (cfg_disabled config')
           \<lparr>inputValue = [],
            infoValue = (if \<not> isSupported then cfg_notsupported config' else []),
            currentFile = None, accept = cfg_accept config',
            disabled = False, supported = isSupported, inputClearing = False,
            showDropTarget = (droppable \<and> cfg_showDropTarget config'),
            thumbnailSizeLimit = cfg_thumbnailSizeLimit config',
            jobs = [], bindings = [UpdateUI]\<rparr>)"

text \<open>
  A listener that the application connects to \<open>change\<close> after construction goes to the end
  of the list.
\<close>

definition connect :: "nat \<Rightarrow> select_widget \<Rightarrow> select_widget" where
  "connect k w = w\<lparr>bindings := bindings w @ [External k]\<rparr>"

subsection \<open>Completion of the read and of the decode\<close>

text \<open>
  The platform reports on a job: the reader has loaded a data URL, or failed; one of the
  images of the job, given by its index, has loaded with its natural width, natural height
  and \<open>complete\<close> flag, or failed. The source installs \<open>reader.onload\<close> (when the read is
  started) and a \<open>load\<close> listener on every image it creates, and nothing for the failures,
  so these reach no code. \<open>reader.onload\<close> has no test: whenever it is called it creates
  an image and sets its source. A deferred settles once: \<open>reject\<close> and \<open>resolve\<close> do
  nothing, and run no callback, on a deferred that is settled.
\<close>

datatype event =
    ReaderLoad nat string
  | ReaderError nat
  | ImgLoad nat nat nat nat bool
  | ImgError nat nat

definition settle :: "nat \<Rightarrow> deferred_state \<Rightarrow> handler" where
  "settle j d w =
     (if deferred (jobs w ! j) = Pending
      then (w\<lparr>jobs := (jobs w)[j := (jobs w ! j)\<lparr>deferred := d\<rparr>]\<rparr>, callbacks d)
      else (w, []))"

fun deliver :: "event \<Rightarrow> handler" where
  "deliver (ReaderLoad j url) w =
     (if j < length (jobs w) \<and> reading (jobs w ! j) \<noteq> None
      then (w\<lparr>jobs := (jobs w)[j := (jobs w ! j)\<lparr>imgs := imgs (jobs w ! j) @ [url]\<rparr>]\<rparr>,
            [ImgSrc j url])
      else (w, []))"
| "deliver (ImgLoad j i naturalWidth naturalHeight complete) w =
     (if j < length (jobs w) \<and> i < length (imgs (jobs w ! j))
      then
        (if naturalWidth = 0 \<or> naturalHeight = 0 \<or> complete = False
         then settle j Rejected w
         else settle j (Resolved (imgs (jobs w ! j) ! i)) w)
      else (w, []))"
| "deliver (ReaderError j) w = (w, [])"
| "deliver (ImgError j i) w = (w, [])"

subsection \<open>Reading a list of effects\<close>

text \<open>The values of the change notifications emitted, in order.\<close>

fun changes :: "effect list \<Rightarrow> ref option list" where
  "changes [] = []"
| "changes (Emit v # es) = v # changes es"
| "changes (e # es) = changes es"

text \<open>
  Whether every listener of the application is notified before the preview is triggered:
  no \<open>Notify\<close> at or after the first \<open>pushPending\<close> or read.
\<close>

fun is_trigger :: "effect \<Rightarrow> bool" where
  "is_trigger PushPending = True"
| "is_trigger (ReadAsDataURL j r) = True"
| "is_trigger e = False"

fun is_notify :: "effect \<Rightarrow> bool" where
  "is_notify (Notify k v) = True"
| "is_notify e = False"

definition notified_before_trigger :: "effect list \<Rightarrow> bool" where
  "notified_before_trigger es =
     list_all (\<lambda>e. \<not> is_notify e) (dropWhile (\<lambda>e. \<not> is_trigger e) es)"

text \<open>The jobs of a list whose deferred is still pending.\<close>

definition in_flight :: "job list \<Rightarrow> nat" where
  "in_flight js = length (filter (\<lambda>j. deferred j = Pending) js)"

subsection \<open>Sequences of calls\<close>

text \<open>
  What can happen to a constructed widget, one call after the other: the native input
  reports a change, something is dropped, the user changes the text of the info field
  (which then holds the new text and calls its listener), the application calls
  \<open>setValue\<close>, \<open>setDisabled\<close> or connects a listener, the platform reports on a job.
\<close>

datatype action =
    FileSelected "ref option"
  | Dropped "ref option"
  | InfoChanged string
  | SetValue "ref option"
  | SetDisabled bool
  | Connect nat
  | Report event

fun perform :: "store \<Rightarrow> action \<Rightarrow> handler" where
  "perform h (FileSelected e) w = onFileSelected h e w"
| "perform h (Dropped e) w = onDrop h e w"
| "perform h (InfoChanged v) w = onInfoChange h v (w\<lparr>infoValue := v\<rparr>)"
| "perform h (SetValue f) w = setValue h f w"
| "perform h (SetDisabled d) w = setDisabled d w"
| "perform h (Connect k) w = (connect k w, [])"
| "perform h (Report ev) w = deliver ev w"

fun perform_all :: "store \<Rightarrow> action list \<Rightarrow> handler" where
  "perform_all h [] w = (w, [])"
| "perform_all h (a # as) w =
     (let (w1, es1) = perform h a w; (w2, es2) = perform_all h as w1 in (w2, es1 @ es2))"

subsection \<open>Concrete widgets\<close>

text \<open>
  In \<open>demo_store\<close> reference 0 is a JPEG image of 1000 bytes and every other reference a
  text file. The widget accepts \<open>image/*\<close>, shows the drop target and previews files below
  20 MiB.
\<close>

definition demo_store :: store where
  "demo_store r =
     (if r = 0 then \<lparr>file_name = ''a.jpg'', file_type = ''image/jpeg'', file_size = 1000\<rparr>
      else \<lparr>file_name = ''b.txt'', file_type = ''text/plain'', file_size = 10\<rparr>)"

definition demo_config :: config where
  "demo_config =
     \<lparr>cfg_accept = Some [''image/*''], cfg_disabled = False,
      cfg_notsupported = ''not supported'', cfg_droppable = True,
      cfg_showDropTarget = True, cfg_thumbnailSizeLimit = 20\<rparr>"

definition demo_widget :: select_widget where
  "demo_widget = SelectFileWidget True demo_config"

definition jpeg_selected :: select_widget where
  "jpeg_selected = fst (onFileSelected demo_store (Some 0) demo_widget)"

definition disabled_widget :: select_widget where
  "disabled_widget = fst (setDisabled True demo_widget)"

text \<open>
  The widget with the JPEG selected, after the reader has delivered a data URL.
\<close>

definition decoding_widget :: select_widget where
  "decoding_widget = fst (deliver (ReaderLoad 0 ''data:x'') jpeg_selected)"


text \<open>
  In \<open>noname_store\<close> reference 0 is the JPEG again and every other reference a PNG image
  whose name is the empty string, as \<open>new File([], '', {type: 'image/png'})\<close> makes one.
\<close>

definition noname_store :: store where
  "noname_store r =
     (if r = 0 then \<lparr>file_name = ''a.jpg'', file_type = ''image/jpeg'', file_size = 1000\<rparr>
      else \<lparr>file_name = [], file_type = ''image/png'', file_size = 0\<rparr>)"

text \<open>
  The concrete widget after \<open>setValue\<close> with the JPEG, whose name the info field then
  shows, and after a further \<open>setValue\<close> with a file of that store that has no name.
\<close>

definition jpeg_shown :: select_widget where
  "jpeg_shown = fst (setValue noname_store (Some 0) demo_widget)"

definition noname_once :: select_widget where
  "noname_once = fst (setValue noname_store (Some 1) jpeg_shown)"

section \<open>The MIME filter\<close>

text \<open>The two uses of \<open>substr\<close> in the loop, and what they test.\<close>

lemma substr_from_end: "substr s (- 2) None = drop (length s - 2) s"
  by (auto simp: substr_def Let_def max_def nat_diff_distrib' intro: arg_cong[where f="\<lambda>n. drop n s"])

lemma substr_from_start: "substr s 0 (Some l) = take l s"
  by (simp add: substr_def Let_def)

lemma ends_in_star: "drop (length s - 2) s = ''/*'' \<longleftrightarrow> suffix ''/*'' s"
proof
  assume h: "drop (length s - 2) s = ''/*''"
  have "s = take (length s - 2) s @ drop (length s - 2) s" by simp
  with h show "suffix ''/*'' s" unfolding suffix_def by metis
next
  assume "suffix ''/*'' s"
  then obtain q where "s = q @ ''/*''" unfolding suffix_def by blast
  then show "drop (length s - 2) s = ''/*''" by simp
qed

lemma take_eq_prefix_iff: "take (length q) m = q \<longleftrightarrow> prefix q m"
  by (metis append_eq_conv_conj prefix_def)

lemma without_star: "take (length s - Suc 0) s = butlast s"
  by (simp add: butlast_conv_take)

lemma accept_loop_spec: "accept_loop ps m = spec_allowed ps m"
  by (induction ps)
     (auto simp: spec_allowed_def substr_from_end substr_from_start ends_in_star
                 take_eq_prefix_iff without_star Let_def)

text \<open>
  Claim C4. With a pattern list and a non-empty type, \<open>isAllowedType\<close> is true exactly
  when the type is equal to some pattern of the list, or some pattern ends in \<open>/*\<close> and the
  type starts with that pattern without its star (the start of the type, of the length of
  the pattern up to and including its slash, is equal to it). In particular the type made
  of a pattern \<open>p\<close> of the list that ends in \<open>/*\<close>, without its last character, followed
  by anything, is allowed. The list need not be non-empty for this.
\<close>

theorem isAllowedType_patterns:
  "accept w = Some patterns \<Longrightarrow> mimeType \<noteq> [] \<Longrightarrow>
   (isAllowedType w mimeType \<longleftrightarrow> spec_allowed patterns mimeType) \<and>
   (\<forall>p rest. p \<in> set patterns \<and> suffix ''/*'' p \<longrightarrow> isAllowedType w (butlast p @ rest))"
proof (intro conjI allI impI)
  assume a: "accept w = Some patterns" and m: "mimeType \<noteq> []"
  show "isAllowedType w mimeType \<longleftrightarrow> spec_allowed patterns mimeType"
    using a m by (simp add: isAllowedType_def accept_loop_spec)
  fix p rest
  assume p: "p \<in> set patterns \<and> suffix ''/*'' p"
  then have "spec_allowed patterns (butlast p @ rest)"
    unfolding spec_allowed_def by auto
  then show "isAllowedType w (butlast p @ rest)"
    using a by (simp add: isAllowedType_def accept_loop_spec)
qed

theorem isAllowedType_patterns_witness:
  "isAllowedType demo_widget ''image/jpeg'' \<and> \<not> isAllowedType demo_widget ''text/plain'' \<and>
   isAllowedType demo_widget (butlast ''image/*'' @ ''anything'')"
proof -
  have a: "accept demo_widget = Some [''image/*'']"
    by (simp add: demo_widget_def SelectFileWidget_def Widget_construct_def demo_config_def setDisabled_def
                  Input_setDisabled_def Widget_setDisabled_def)
  have j: "spec_allowed [''image/*''] ''image/jpeg''"
    by code_simp
  have t: "\<not> spec_allowed [''image/*''] ''text/plain''"
    by code_simp
  from isAllowedType_patterns [OF a, of "''image/jpeg''"] j
  have 1: "isAllowedType demo_widget ''image/jpeg''" by simp
  from isAllowedType_patterns [OF a, of "''text/plain''"] t
  have 2: "\<not> isAllowedType demo_widget ''text/plain''" by simp
  from isAllowedType_patterns [OF a, of "''image/jpeg''"]
  have 3: "isAllowedType demo_widget (butlast ''image/*'' @ ''anything'')"
    by (simp add: suffix_to_prefix)
  from 1 2 3 show ?thesis by simp
qed

text \<open>
  Claim C5. \<open>isAllowedType\<close> is true whenever \<open>accept\<close> is \<open>null\<close> or the type is the empty
  string, whatever the other one is.
\<close>

theorem isAllowedType_permissive:
  "accept w = None \<or> mimeType = [] \<Longrightarrow> isAllowedType w mimeType"
  by (auto simp: isAllowedType_def split: option.splits)

theorem isAllowedType_permissive_witness:
  "isAllowedType (demo_widget\<lparr>accept := None\<rparr>) ''text/plain'' \<and> isAllowedType demo_widget []"
  using isAllowedType_permissive [of "demo_widget\<lparr>accept := None\<rparr>" "''text/plain''"]
        isAllowedType_permissive [of demo_widget "[]"]
  by simp

section \<open>Setting the value of the form-compatible widget\<close>

text \<open>
  Claim C10. \<open>setValue(undefined)\<close> on the form-compatible widget returns at once: no
  field of the widget changes (neither \<open>currentFile\<close> nor the string value) and nothing
  is emitted, whatever the method of the parent class does.
\<close>

theorem Input_setValue_undefined:
  "Input_setValue super_setValue Undefined w = (w, [])"
  by (simp add: Input_setValue_def)

section \<open>The mutual calls of the methods\<close>

text \<open>
  On a widget without a current file whose info field is empty, \<open>updateUI\<close> does not reach
  the listener of the info field, and leaves the widget in that condition.
\<close>

lemma updateUI_at_rest:
  assumes "infoValue w = []" and "currentFile w = None"
  shows "updateUI h w = updateUI_inner h w"
    and "infoValue (fst (updateUI_inner h w)) = []"
    and "currentFile (fst (updateUI_inner h w)) = None"
  using assms
  by (simp_all add: updateUI_def updateUI_inner_def updateUI_with_def info_setValue_def
                    getFilename_def refresh_def)

lemma dispatch_at_rest:
  "infoValue w = [] \<Longrightarrow> currentFile w = None \<Longrightarrow>
   dispatch_with (updateUI h) v ls w = dispatch_with (updateUI_inner h) v ls w"
proof (induction ls arbitrary: w)
  case Nil
  then show ?case by simp
next
  case (Cons l ls)
  show ?case
  proof (cases l)
    case UpdateUI
    note rest = updateUI_at_rest [OF Cons.prems, of h]
    from Cons.IH [OF rest(2) rest(3)] rest(1) UpdateUI show ?thesis by (simp add: split_beta)
  next
    case (External k)
    with Cons.IH [OF Cons.prems] show ?thesis by (simp add: split_beta)
  qed
qed

lemma setValue_null_at_rest:
  "infoValue w = [] \<Longrightarrow> setValue_with (updateUI h) None w = setValue_with (updateUI_inner h) None w"
  by (simp add: setValue_with_def dispatch_at_rest)

text \<open>
  The three methods satisfy the equations of the source: \<open>updateUI\<close> with \<open>onInfoChange\<close>
  as the listener of the info field, \<open>onInfoChange\<close> with \<open>setValue\<close>, and \<open>setValue\<close>
  with \<open>updateUI\<close> as the listener of its \<open>change\<close>.
\<close>

lemma updateUI_source: "updateUI h w = updateUI_with (onInfoChange h) h w"
proof -
  have "onInfoChange_with (updateUI_inner h) v (w\<lparr>infoValue := v\<rparr>) =
        onInfoChange h v (w\<lparr>infoValue := v\<rparr>)" for v
    by (simp add: onInfoChange_def onInfoChange_with_def setValue_null_at_rest)
  then show ?thesis
    by (simp add: updateUI_def updateUI_with_def info_setValue_def)
qed

lemma onInfoChange_source:
  "onInfoChange h v w = (if v = [] then setValue h None w else (w, []))"
  by (simp add: onInfoChange_def onInfoChange_with_def setValue_def)

lemma setValue_source:
  "setValue h file w =
     (if currentFile w \<noteq> file then
        (let w1 = w\<lparr>currentFile := file\<rparr>;
             (w2, es) = dispatch_with (updateUI h) file (bindings w1) w1
         in (w2, Emit file # es))
      else (w, []))"
  by (simp add: setValue_def setValue_with_def)

section \<open>Change notifications of the drag-and-drop widget\<close>

lemmas method_defs =
  setValue_def setValue_with_def updateUI_def updateUI_inner_def updateUI_with_def
  info_setValue_def onInfoChange_with_def refresh_def loadAndGetImageUrl_def getFilename_def

lemma changes_append: "changes (xs @ ys) = changes xs @ changes ys"
  by (induction xs rule: changes.induct) simp_all

lemma changes_callbacks: "changes (callbacks d) = []"
  by (cases d) simp_all

text \<open>
  The part of \<open>updateUI\<close> after the parent method emits no change and touches neither the
  current file nor the info field.
\<close>

lemma refresh_frame:
  "currentFile (fst (refresh h w)) = currentFile w \<and>
   infoValue (fst (refresh h w)) = infoValue w \<and>
   changes (snd (refresh h w)) = []"
  by (auto simp: refresh_def loadAndGetImageUrl_def split_beta changes_append changes_callbacks
           split: option.splits)

text \<open>
  When there is no current file, or the current file has a name that is not empty, the
  listener of the info field does nothing, and \<open>updateUI\<close> is the parent method followed
  by the rest.
\<close>

lemma updateUI_calm:
  assumes "getFilename h w = [] \<longrightarrow> currentFile w = None"
  shows "updateUI h w =
     (if \<not> supported w then (w, [])
      else (fst (refresh h (w\<lparr>infoValue := getFilename h w\<rparr>)),
            InfoSetValue (getFilename h w) # snd (refresh h (w\<lparr>infoValue := getFilename h w\<rparr>))))"
proof (cases "infoValue w = getFilename h w")
  case True
  then have eq: "w\<lparr>infoValue := getFilename h w\<rparr> = w" by simp
  have "updateUI h w =
     (if \<not> supported w then (w, [])
      else (fst (refresh h w), InfoSetValue (getFilename h w) # snd (refresh h w)))"
    using True by (simp add: updateUI_def updateUI_with_def info_setValue_def split_beta)
  then show ?thesis by (simp only: eq)
next
  case False
  have "onInfoChange_with (updateUI_inner h) (getFilename h w) (w\<lparr>infoValue := getFilename h w\<rparr>) =
        (w\<lparr>infoValue := getFilename h w\<rparr>, [])"
    using assms by (simp add: onInfoChange_with_def setValue_with_def)
  with False show ?thesis
    by (simp add: updateUI_def updateUI_with_def info_setValue_def split_beta)
qed

lemma updateUI_calm_frame:
  assumes "getFilename h w = [] \<longrightarrow> currentFile w = None"
  shows "currentFile (fst (updateUI h w)) = currentFile w \<and> changes (snd (updateUI h w)) = []"
  by (simp add: updateUI_calm [OF assms] refresh_frame)

lemma getFilename_cong: "currentFile w' = currentFile w \<Longrightarrow> getFilename h w' = getFilename h w"
  by (simp add: getFilename_def)

lemma dispatch_calm_frame:
  "getFilename h w = [] \<longrightarrow> currentFile w = None \<Longrightarrow>
   currentFile (fst (dispatch_with (updateUI h) v ls w)) = currentFile w \<and>
   changes (snd (dispatch_with (updateUI h) v ls w)) = []"
proof (induction ls arbitrary: w)
  case Nil
  then show ?case by simp
next
  case (Cons l ls)
  show ?case
  proof (cases l)
    case UpdateUI
    note u = updateUI_calm_frame [OF Cons.prems]
    from u have c: "currentFile (fst (updateUI h w)) = currentFile w" by simp
    have "getFilename h (fst (updateUI h w)) = [] \<longrightarrow> currentFile (fst (updateUI h w)) = None"
      using Cons.prems c getFilename_cong [OF c, of h] by simp
    from Cons.IH [OF this] u UpdateUI show ?thesis
      by (simp add: split_beta changes_append)
  next
    case (External k)
    with Cons.IH [OF Cons.prems] show ?thesis by (simp add: split_beta)
  qed
qed

text \<open>
  For \<open>null\<close> and for a file whose name is not empty, \<open>setValue\<close> leaves its argument as
  the current file and emits one change when the argument differs from the current file,
  none when it does not.
\<close>

lemma setValue_named:
  assumes "f = None \<or> (\<exists>r. f = Some r \<and> file_name (h r) \<noteq> [])"
  shows "currentFile (fst (setValue h f w)) = f \<and>
         changes (snd (setValue h f w)) = (if currentFile w = f then [] else [f])"
proof -
  have "getFilename h (w\<lparr>currentFile := f\<rparr>) = [] \<longrightarrow> currentFile (w\<lparr>currentFile := f\<rparr>) = None"
    using assms by (auto simp: getFilename_def)
  from dispatch_calm_frame [OF this, of f "bindings w"] show ?thesis
    by (simp add: setValue_def setValue_with_def Let_def split_beta)
qed

lemma setValue_same: "currentFile w = f \<Longrightarrow> setValue h f w = (w, [])"
  by (simp add: setValue_def setValue_with_def)

text \<open>The concrete widget, and the same widget after the JPEG has been selected.\<close>

lemma demo_widget_eq:
  "demo_widget =
     \<lparr>inputValue = [], infoValue = [], currentFile = None, accept = Some [''image/*''],
      disabled = False, supported = True, inputClearing = False, showDropTarget = True,
      thumbnailSizeLimit = 20, jobs = [], bindings = [UpdateUI]\<rparr>"
  by (simp add: demo_widget_def SelectFileWidget_def Widget_construct_def demo_config_def
                setDisabled_def Input_setDisabled_def Widget_setDisabled_def)

lemma jpeg_allowed: "isAllowedType demo_widget ''image/jpeg''"
  by (simp add: demo_widget_eq isAllowedType_def substr_def)

lemma select_jpeg:
  "onFileSelected demo_store (Some 0) demo_widget =
     (\<lparr>inputValue = [], infoValue = ''a.jpg'', currentFile = Some 0,
       accept = Some [''image/*''], disabled = False, supported = True,
       inputClearing = False, showDropTarget = True, thumbnailSizeLimit = 20,
       jobs = [\<lparr>reading = Some 0, imgs = [], deferred = Pending\<rparr>],
       bindings = [UpdateUI]\<rparr>,
      [InputCleared, Emit (Some 0), InfoSetValue ''a.jpg'', EmptyClass False, PushPending,
       ReadAsDataURL 0 0, ClickOff])"
  using jpeg_allowed
  by (simp add: onFileSelected_def filtered_def demo_store_def demo_widget_eq method_defs Let_def)

lemma jpeg_selected_eq:
  "jpeg_selected =
     \<lparr>inputValue = [], infoValue = ''a.jpg'', currentFile = Some 0,
      accept = Some [''image/*''], disabled = False, supported = True,
      inputClearing = False, showDropTarget = True, thumbnailSizeLimit = 20,
      jobs = [\<lparr>reading = Some 0, imgs = [], deferred = Pending\<rparr>],
      bindings = [UpdateUI]\<rparr>"
  by (simp add: jpeg_selected_def select_jpeg)

text \<open>A file without a name, selected while the info field shows the name of another.\<close>

lemma jpeg_shown_eq: "jpeg_shown = jpeg_selected"
  by (simp add: jpeg_shown_def jpeg_selected_eq noname_store_def demo_widget_eq method_defs Let_def)

lemma noname_first:
  "setValue noname_store (Some 1) jpeg_shown =
     (\<lparr>inputValue = [], infoValue = [], currentFile = None,
       accept = Some [''image/*''], disabled = False, supported = True,
       inputClearing = False, showDropTarget = True, thumbnailSizeLimit = 20,
       jobs = [\<lparr>reading = Some 0, imgs = [], deferred = Pending\<rparr>],
       bindings = [UpdateUI]\<rparr>,
      [Emit (Some 1), InfoSetValue [], Emit None, InfoSetValue [], ClickOff, ClickOn,
       ThumbnailEmpty, EmptyClass True, ClickOff, ClickOn, ThumbnailEmpty, EmptyClass True])"
  by (simp add: jpeg_shown_eq jpeg_selected_eq noname_store_def method_defs Let_def)

lemma noname_once_eq:
  "noname_once =
     \<lparr>inputValue = [], infoValue = [], currentFile = None,
      accept = Some [''image/*''], disabled = False, supported = True,
      inputClearing = False, showDropTarget = True, thumbnailSizeLimit = 20,
      jobs = [\<lparr>reading = Some 0, imgs = [], deferred = Pending\<rparr>],
      bindings = [UpdateUI]\<rparr>"
  by (simp only: noname_once_def noname_first fst_conv)

lemma noname_second:
  "setValue noname_store (Some 1) noname_once =
     (\<lparr>inputValue = [], infoValue = [], currentFile = Some 1,
       accept = Some [''image/*''], disabled = False, supported = True,
       inputClearing = False, showDropTarget = True, thumbnailSizeLimit = 20,
       jobs = [\<lparr>reading = Some 0, imgs = [], deferred = Pending\<rparr>,
               \<lparr>reading = Some 1, imgs = [], deferred = Pending\<rparr>],
       bindings = [UpdateUI]\<rparr>,
      [Emit (Some 1), InfoSetValue [], EmptyClass False, PushPending, ReadAsDataURL 1 1,
       ClickOff])"
  by (simp add: noname_once_eq noname_store_def method_defs Let_def)

text \<open>
  Claim C3. Two calls of \<open>setValue\<close> in a row that select a new file emit one change
  (\<open>setValue_named\<close>, \<open>setValue_same\<close>), unless the file has no name and the info field
  shows a text; there the source breaks the claim. The widget shows the name of the JPEG
  (reference 0), and \<open>setValue\<close> is called twice with a file that has no name (reference
  1). In the first call \<open>updateUI\<close> sets the text of the info field to the empty name,
  the info field emits its \<open>change\<close>, and \<open>onInfoChange\<close> calls \<open>setValue(null)\<close>: the
  call emits a change with the file and a change with \<open>null\<close>, and ends with no current
  file. The second call finds a current file that differs and emits again. The two calls
  emit three changes.
\<close>

theorem setValue_noname_twice:
  "currentFile jpeg_shown = Some 0 \<and>
   infoValue jpeg_shown = ''a.jpg'' \<and>
   file_name (noname_store 1) = [] \<and>
   changes (snd (setValue noname_store (Some 1) jpeg_shown)) = [Some 1, None] \<and>
   currentFile noname_once = None \<and>
   changes (snd (setValue noname_store (Some 1) noname_once)) = [Some 1] \<and>
   changes (snd (setValue noname_store (Some 1) jpeg_shown) @
            snd (setValue noname_store (Some 1) noname_once)) = [Some 1, None, Some 1]"
proof -
  have 1: "currentFile jpeg_shown = Some 0 \<and> infoValue jpeg_shown = ''a.jpg''"
    by (simp add: jpeg_shown_eq jpeg_selected_eq)
  have 2: "file_name (noname_store 1) = []"
    by (simp add: noname_store_def)
  have 3: "changes (snd (setValue noname_store (Some 1) jpeg_shown)) = [Some 1, None]"
    by (simp only: noname_first snd_conv) simp
  have 4: "currentFile noname_once = None"
    by (simp add: noname_once_eq)
  have 5: "changes (snd (setValue noname_store (Some 1) noname_once)) = [Some 1]"
    by (simp only: noname_second snd_conv) simp
  from 3 5 have 6: "changes (snd (setValue noname_store (Some 1) jpeg_shown) @
      snd (setValue noname_store (Some 1) noname_once)) = [Some 1, None, Some 1]"
    by (simp only: changes_append) simp
  from 1 2 3 4 5 6 show ?thesis by blast
qed

section \<open>Rejected candidates and disabled widgets\<close>

text \<open>
  While the native input is not being cleared, \<open>onFileSelected\<close> clears it and sets the
  value to the file that passed the filter, or to \<open>null\<close>.
\<close>

lemma filtered_rejected:
  "\<not> isAllowedType w (file_type (h r)) \<Longrightarrow> filtered h w (Some r) = None"
  by (simp add: filtered_def)

lemma onFileSelected_idle:
  assumes idle: "\<not> inputClearing w"
  shows "onFileSelected h e w =
     (fst (setValue h (filtered h w e) w), InputCleared # snd (setValue h (filtered h w e) w))"
proof -
  have eq: "w\<lparr>inputClearing := False\<rparr> = w" using idle by simp
  have "onFileSelected h e w =
      (fst (setValue h (filtered h w e) (w\<lparr>inputClearing := False\<rparr>)),
       InputCleared # snd (setValue h (filtered h w e) (w\<lparr>inputClearing := False\<rparr>)))"
    using idle by (simp add: onFileSelected_def Let_def split_beta)
  then show ?thesis by (simp only: eq)
qed

lemma text_rejected: "\<not> isAllowedType jpeg_selected (file_type (demo_store 1))"
  by (simp add: jpeg_selected_eq demo_store_def isAllowedType_def substr_def)

text \<open>
  Claim C1, as stated, fails for the handler of the native input. The widget accepts
  \<open>image/*\<close> and holds the JPEG (reference 0). A change of the native input that
  carries the text file (reference 1, refused by the filter) sets the current file to
  \<open>null\<close> and emits a change with \<open>null\<close>: the handler replaces a refused file by \<open>null\<close>
  and passes that to \<open>setValue\<close>.
\<close>

theorem rejected_candidate_clears_selection:
  "\<not> isAllowedType jpeg_selected (file_type (demo_store 1)) \<and>
   currentFile jpeg_selected = Some 0 \<and>
   currentFile (fst (onFileSelected demo_store (Some 1) jpeg_selected)) = None \<and>
   changes (snd (onFileSelected demo_store (Some 1) jpeg_selected)) = [None]"
proof -
  have idle: "\<not> inputClearing jpeg_selected" by (simp add: jpeg_selected_eq)
  have f: "filtered demo_store jpeg_selected (Some 1) = None"
    using text_rejected by (rule filtered_rejected)
  have c: "currentFile jpeg_selected = Some 0" by (simp add: jpeg_selected_eq)
  show ?thesis
    using text_rejected c f
    by (simp add: onFileSelected_idle [OF idle] setValue_named)
qed

text \<open>
  Claim C1, amended. For a candidate whose type the filter refuses: the drop handler
  leaves the widget as it is and emits no change; the handler of the native input treats
  it as an empty file list, so the current file becomes \<open>null\<close>, with one change carrying
  \<open>null\<close> when a file was selected before and none otherwise (and nothing at all while
  the native input is being cleared). After the JPEG has been accepted under
  \<open>image/*\<close>, a dropped text file leaves the current file equal to the JPEG.
\<close>

theorem rejected_candidate:
  "\<not> isAllowedType w (file_type (h r)) \<Longrightarrow>
   onDrop h (Some r) w = (w, [PreventDefault, StopPropagation, CanDropOff]) \<and>
   onFileSelected h (Some r) w = onFileSelected h None w \<and>
   (\<not> inputClearing w \<longrightarrow>
      currentFile (fst (onFileSelected h (Some r) w)) = None \<and>
      changes (snd (onFileSelected h (Some r) w)) =
        (if currentFile w = None then [] else [None])) \<and>
   (inputClearing w \<longrightarrow> onFileSelected h (Some r) w = (w, []))"
proof (intro conjI impI)
  assume rej: "\<not> isAllowedType w (file_type (h r))"
  then have f: "filtered h w (Some r) = None" by (rule filtered_rejected)
  have n: "filtered h w None = None" by (simp add: filtered_def)
  show "onDrop h (Some r) w = (w, [PreventDefault, StopPropagation, CanDropOff])"
    by (simp add: onDrop_def f)
  show "onFileSelected h (Some r) w = onFileSelected h None w"
    by (simp add: onFileSelected_def f n)
  show "currentFile (fst (onFileSelected h (Some r) w)) = None" if "\<not> inputClearing w"
    by (simp add: onFileSelected_idle [OF that] f setValue_named)
  show "changes (snd (onFileSelected h (Some r) w)) =
        (if currentFile w = None then [] else [None])" if "\<not> inputClearing w"
    by (simp add: onFileSelected_idle [OF that] f setValue_named)
  show "onFileSelected h (Some r) w = (w, [])" if "inputClearing w"
    using that by (simp add: onFileSelected_def)
qed

theorem rejected_candidate_witness:
  "\<not> isAllowedType jpeg_selected (file_type (demo_store 1)) \<and>
   currentFile (fst (onDrop demo_store (Some 1) jpeg_selected)) = Some 0 \<and>
   changes (snd (onDrop demo_store (Some 1) jpeg_selected)) = [] \<and>
   \<not> inputClearing jpeg_selected \<and>
   currentFile (fst (onFileSelected demo_store (Some 1) jpeg_selected)) = None \<and>
   inputClearing (jpeg_selected\<lparr>inputClearing := True\<rparr>) \<and>
   onFileSelected demo_store (Some 1) (jpeg_selected\<lparr>inputClearing := True\<rparr>) =
     (jpeg_selected\<lparr>inputClearing := True\<rparr>, [])"
proof -
  have r2: "\<not> isAllowedType (jpeg_selected\<lparr>inputClearing := True\<rparr>) (file_type (demo_store 1))"
    using text_rejected by (simp add: isAllowedType_def)
  have idle: "\<not> inputClearing jpeg_selected" and c: "currentFile jpeg_selected = Some 0"
    by (simp_all add: jpeg_selected_eq)
  note drop = rejected_candidate [of jpeg_selected demo_store 1, OF text_rejected]
  note busy = rejected_candidate [of "jpeg_selected\<lparr>inputClearing := True\<rparr>" demo_store 1, OF r2]
  have flag: "inputClearing (jpeg_selected\<lparr>inputClearing := True\<rparr>)" by simp
  have 1: "onDrop demo_store (Some 1) jpeg_selected =
      (jpeg_selected, [PreventDefault, StopPropagation, CanDropOff])"
    using drop by (rule conjunct1)
  have 2: "currentFile (fst (onFileSelected demo_store (Some 1) jpeg_selected)) = None"
    using drop idle by blast
  have 3: "onFileSelected demo_store (Some 1) (jpeg_selected\<lparr>inputClearing := True\<rparr>) =
      (jpeg_selected\<lparr>inputClearing := True\<rparr>, [])"
    using busy flag by blast
  show ?thesis
    using 1 2 3 idle c text_rejected by simp
qed

text \<open>The concrete widget after \<open>setDisabled(true)\<close>.\<close>

lemma disabled_widget_eq:
  "disabled_widget =
     \<lparr>inputValue = [], infoValue = [], currentFile = None, accept = Some [''image/*''],
      disabled = True, supported = True, inputClearing = False, showDropTarget = True,
      thumbnailSizeLimit = 20, jobs = [], bindings = [UpdateUI]\<rparr>"
  by (simp add: disabled_widget_def demo_widget_eq setDisabled_def Input_setDisabled_def
                Widget_setDisabled_def)

text \<open>
  Claim C2, as stated, fails for the handler of the native input, which does not test the
  disabled flag: on the disabled widget, with no file selected, a change of the native
  input that carries the JPEG selects it and emits a change.
\<close>

theorem disabled_input_change_selects:
  "disabled disabled_widget \<and>
   currentFile disabled_widget = None \<and>
   currentFile (fst (onFileSelected demo_store (Some 0) disabled_widget)) = Some 0 \<and>
   changes (snd (onFileSelected demo_store (Some 0) disabled_widget)) = [Some 0]"
proof -
  have idle: "\<not> inputClearing disabled_widget" by (simp add: disabled_widget_eq)
  have "isAllowedType disabled_widget ''image/jpeg''"
    using jpeg_allowed by (simp add: isAllowedType_def disabled_widget_eq demo_widget_eq)
  then have f: "filtered demo_store disabled_widget (Some 0) = Some 0"
    by (simp add: filtered_def demo_store_def)
  have c: "currentFile disabled_widget = None" by (simp add: disabled_widget_eq)
  have d: "disabled disabled_widget" by (simp add: disabled_widget_eq)
  have n: "Some 0 = None \<or> (\<exists>r. Some (0::nat) = Some r \<and> file_name (demo_store r) \<noteq> [])"
    by (simp add: demo_store_def)
  show ?thesis
    using c d f setValue_named [OF n, of disabled_widget]
    by (simp add: onFileSelected_idle [OF idle])
qed

text \<open>
  Claim C2, amended. When the widget is disabled, the drop handler is a no-op for every
  payload: the widget is unchanged (the current file with it) and no change is emitted.
  The handler of the native input has no test of its own; the disabled native control is
  what keeps files from arriving there.
\<close>

theorem disabled_drop_ignored:
  "disabled w \<Longrightarrow> fst (onDrop h e w) = w \<and> changes (snd (onDrop h e w)) = []"
  by (simp add: onDrop_def)

theorem disabled_drop_ignored_witness:
  "disabled disabled_widget \<and>
   fst (onDrop demo_store (Some 0) disabled_widget) = disabled_widget \<and>
   changes (snd (onDrop demo_store (Some 0) disabled_widget)) = []"
proof -
  have d: "disabled disabled_widget" by (simp add: disabled_widget_eq)
  show ?thesis using disabled_drop_ignored [OF d, of demo_store "Some 0"] d by simp
qed

section \<open>The size bound of the preview\<close>



section \<open>A platform without file support\<close>

text \<open>
  No method touches the disabled flag or the platform flag, except \<open>setDisabled\<close>. For
  the methods that take another method as an argument, this holds when it holds of the
  argument.
\<close>

lemma refresh_flags:
  "disabled (fst (refresh h w)) = disabled w \<and> supported (fst (refresh h w)) = supported w"
  by (auto simp: refresh_def loadAndGetImageUrl_def split_beta split: option.splits)

lemma info_setValue_flags:
  assumes "\<And>v w. disabled (fst (l v w)) = disabled w \<and> supported (fst (l v w)) = supported w"
  shows "disabled (fst (info_setValue l v w)) = disabled w \<and>
         supported (fst (info_setValue l v w)) = supported w"
  using assms [of v "w\<lparr>infoValue := v\<rparr>"] by (simp add: info_setValue_def split_beta)

lemma updateUI_with_flags:
  assumes "\<And>v w. disabled (fst (l v w)) = disabled w \<and> supported (fst (l v w)) = supported w"
  shows "disabled (fst (updateUI_with l h w)) = disabled w \<and>
         supported (fst (updateUI_with l h w)) = supported w"
  using info_setValue_flags [of l, OF assms]
  by (simp add: updateUI_with_def split_beta refresh_flags)

lemma dispatch_with_flags:
  assumes "\<And>w. disabled (fst (u w)) = disabled w \<and> supported (fst (u w)) = supported w"
  shows "disabled (fst (dispatch_with u v ls w)) = disabled w \<and>
         supported (fst (dispatch_with u v ls w)) = supported w"
proof (induction ls arbitrary: w)
  case Nil
  then show ?case by simp
next
  case (Cons l ls)
  then show ?case
    by (cases l) (simp_all add: split_beta assms)
qed

lemma setValue_with_flags:
  assumes "\<And>w. disabled (fst (u w)) = disabled w \<and> supported (fst (u w)) = supported w"
  shows "disabled (fst (setValue_with u f w)) = disabled w \<and>
         supported (fst (setValue_with u f w)) = supported w"
  using dispatch_with_flags [of u, OF assms]
  by (simp add: setValue_with_def Let_def split_beta)

lemma updateUI_inner_flags:
  "disabled (fst (updateUI_inner h w)) = disabled w \<and>
   supported (fst (updateUI_inner h w)) = supported w"
  unfolding updateUI_inner_def by (rule updateUI_with_flags) simp

lemma updateUI_flags:
  "disabled (fst (updateUI h w)) = disabled w \<and> supported (fst (updateUI h w)) = supported w"
  unfolding updateUI_def
proof (rule updateUI_with_flags)
  fix v w
  show "disabled (fst (onInfoChange_with (updateUI_inner h) v w)) = disabled w \<and>
        supported (fst (onInfoChange_with (updateUI_inner h) v w)) = supported w"
    using setValue_with_flags [of "updateUI_inner h", OF updateUI_inner_flags]
    by (simp add: onInfoChange_with_def)
qed

lemma setValue_flags:
  "disabled (fst (setValue h f w)) = disabled w \<and> supported (fst (setValue h f w)) = supported w"
  unfolding setValue_def by (rule setValue_with_flags) (rule updateUI_flags)

lemma onInfoChange_flags:
  "disabled (fst (onInfoChange h v w)) = disabled w \<and>
   supported (fst (onInfoChange h v w)) = supported w"
  by (simp add: onInfoChange_source setValue_flags)

lemma deliver_flags:
  "disabled (fst (deliver ev w)) = disabled w \<and> supported (fst (deliver ev w)) = supported w"
  by (cases ev) (auto simp: settle_def)

lemma onFileSelected_flags:
  "disabled (fst (onFileSelected h e w)) = disabled w \<and>
   supported (fst (onFileSelected h e w)) = supported w"
  by (simp add: onFileSelected_def Let_def split_beta setValue_flags)

lemma onDrop_flags:
  "disabled (fst (onDrop h e w)) = disabled w \<and>
   supported (fst (onDrop h e w)) = supported w"
  by (simp add: onDrop_def split_beta setValue_flags split: option.splits)

lemma setDisabled_flags:
  "disabled (fst (setDisabled d w)) = (d \<or> \<not> supported w) \<and>
   supported (fst (setDisabled d w)) = supported w"
  by (simp add: setDisabled_def Input_setDisabled_def Widget_setDisabled_def)

lemma perform_keeps_forced:
  "\<not> supported w \<Longrightarrow> disabled w \<Longrightarrow>
   \<not> supported (fst (perform h a w)) \<and> disabled (fst (perform h a w))"
  by (cases a)
     (simp_all add: onFileSelected_flags onDrop_flags onInfoChange_flags setValue_flags
                    setDisabled_flags deliver_flags connect_def)

lemma perform_all_keeps_forced:
  "\<not> supported w \<Longrightarrow> disabled w \<Longrightarrow>
   \<not> supported (fst (perform_all h as w)) \<and> disabled (fst (perform_all h as w))"
proof (induction as arbitrary: w)
  case Nil
  then show ?case by simp
next
  case (Cons a as)
  from perform_keeps_forced [OF Cons.prems, of h a]
  have "\<not> supported (fst (perform h a w))" and "disabled (fst (perform h a w))" by simp_all
  then show ?case using Cons.IH by (simp add: split_beta)
qed

lemma constructed_unsupported:
  "\<not> isSupported \<Longrightarrow>
   \<not> supported (SelectFileWidget isSupported config) \<and>
   disabled (SelectFileWidget isSupported config)"
  by (simp add: SelectFileWidget_def Widget_construct_def setDisabled_def Input_setDisabled_def
                Widget_setDisabled_def)

text \<open>
  Claim C9. On a platform without file support the widget is disabled when it has been
  constructed, whatever the configuration asks for, it is disabled after \<open>setDisabled(d)\<close>
  for either \<open>d\<close>, and it is still disabled after any sequence of calls, \<open>setDisabled\<close>
  among them.
\<close>

theorem unsupported_stays_disabled:
  "\<not> isSupported \<Longrightarrow>
   disabled (SelectFileWidget isSupported config) \<and>
   disabled (fst (setDisabled d (SelectFileWidget isSupported config))) \<and>
   disabled (fst (perform_all h as (SelectFileWidget isSupported config)))"
proof -
  assume u: "\<not> isSupported"
  note c = constructed_unsupported [OF u, of config]
  from c have "disabled (fst (setDisabled d (SelectFileWidget isSupported config)))"
    by (simp add: setDisabled_flags)
  moreover from c have "disabled (fst (perform_all h as (SelectFileWidget isSupported config)))"
    using perform_all_keeps_forced by blast
  ultimately show ?thesis using c by simp
qed

theorem unsupported_stays_disabled_witness:
  "disabled (SelectFileWidget False demo_config) \<and>
   disabled (fst (setDisabled False (SelectFileWidget False demo_config))) \<and>
   disabled (fst (perform_all demo_store [SetDisabled False, FileSelected (Some 0), SetDisabled False]
                    (SelectFileWidget False demo_config)))"
  using unsupported_stays_disabled [of False demo_config False demo_store
          "[SetDisabled False, FileSelected (Some 0), SetDisabled False]"]
  by simp

section \<open>The order of notification and preview\<close>

lemma dispatch_external:
  "dispatch_with u v (map External ks) w = (w, map (\<lambda>k. Notify k v) ks)"
  by (induction ks) simp_all

lemma connected_eq:
  "connect 0 demo_widget =
     \<lparr>inputValue = [], infoValue = [], currentFile = None, accept = Some [''image/*''],
      disabled = False, supported = True, inputClearing = False, showDropTarget = True,
      thumbnailSizeLimit = 20, jobs = [], bindings = [UpdateUI, External 0]\<rparr>"
  by (simp add: connect_def demo_widget_eq)

lemma connected_trace:
  "snd (setValue demo_store (Some 0) (connect 0 demo_widget)) =
     [Emit (Some 0), InfoSetValue ''a.jpg'', EmptyClass False, PushPending,
      ReadAsDataURL 0 0, ClickOff, Notify 0 (Some 0)]"
  by (simp add: connected_eq method_defs demo_store_def Let_def)

text \<open>
  Claim C8, as stated, fails. The application connects a listener to the concrete widget
  and the JPEG is selected: the listener is notified last, after \<open>pushPending\<close> and after
  the read of the file has been started. The listener that refreshes the interface was
  connected by the constructor, before any listener of the application, and the emitter
  calls the listeners in the order of their connection.
\<close>

theorem listener_notified_after_preview:
  "snd (setValue demo_store (Some 0) (connect 0 demo_widget)) =
     [Emit (Some 0), InfoSetValue ''a.jpg'', EmptyClass False, PushPending,
      ReadAsDataURL 0 0, ClickOff, Notify 0 (Some 0)] \<and>
   \<not> notified_before_trigger (snd (setValue demo_store (Some 0) (connect 0 demo_widget)))"
  by (simp add: connected_trace notified_before_trigger_def)

text \<open>
  Claim C8, amended. For every accepted selection (a value that differs from the current
  file) on a widget whose listeners are the one of the constructor followed by those the
  application has connected: the current file is assigned and the change is emitted
  first; the refresh of the interface, which triggers the preview, runs next, as the first
  listener; the listeners of the application are notified after it, in the order of
  their connection.
\<close>

theorem change_emitted_before_preview:
  "bindings w = UpdateUI # map External ks \<Longrightarrow> currentFile w \<noteq> f \<Longrightarrow>
   setValue h f w =
     (fst (updateUI h (w\<lparr>currentFile := f\<rparr>)),
      Emit f # snd (updateUI h (w\<lparr>currentFile := f\<rparr>)) @ map (\<lambda>k. Notify k f) ks)"
  by (simp add: setValue_def setValue_with_def Let_def split_beta dispatch_external)

theorem change_emitted_before_preview_witness:
  "bindings (connect 0 demo_widget) = UpdateUI # map External [0] \<and>
   currentFile (connect 0 demo_widget) \<noteq> Some 0 \<and>
   setValue demo_store (Some 0) (connect 0 demo_widget) =
     (fst (updateUI demo_store ((connect 0 demo_widget)\<lparr>currentFile := Some 0\<rparr>)),
      Emit (Some 0) # snd (updateUI demo_store ((connect 0 demo_widget)\<lparr>currentFile := Some 0\<rparr>)) @
      map (\<lambda>k. Notify k (Some 0)) [0])"
proof -
  have b: "bindings (connect 0 demo_widget) = UpdateUI # map External [0]"
    by (simp add: connected_eq)
  have c: "currentFile (connect 0 demo_widget) \<noteq> Some 0"
    by (simp add: connected_eq)
  show ?thesis
    using change_emitted_before_preview [OF b c, of demo_store] b c by simp
qed

section \<open>The busy indicator\<close>

text \<open>
  When an image of a job has loaded while the deferred of the job is pending, the deferred
  settles and the busy indicator is popped once, on both paths: a natural width of 0, a
  natural height of 0 or an incomplete image rejects it, which appends the fallback icon
  and does not set the thumbnail; anything else resolves it with the source of that
  image, which sets the thumbnail.
\<close>

lemma deliver_image_loaded:
  "j < length (jobs w) \<Longrightarrow> i < length (imgs (jobs w ! j)) \<Longrightarrow> deferred (jobs w ! j) = Pending \<Longrightarrow>
   deliver (ImgLoad j i naturalWidth naturalHeight complete) w =
     (if naturalWidth = 0 \<or> naturalHeight = 0 \<or> \<not> complete
      then (w\<lparr>jobs := (jobs w)[j := (jobs w ! j)\<lparr>deferred := Rejected\<rparr>]\<rparr>,
            [ThumbnailIcon, PopPending])
      else (w\<lparr>jobs := (jobs w)[j := (jobs w ! j)\<lparr>deferred := Resolved (imgs (jobs w ! j) ! i)\<rparr>]\<rparr>,
            [ThumbnailBackground (imgs (jobs w ! j) ! i), PopPending]))"
  by (simp add: settle_def)

text \<open>A deferred that is settled stays as it is, whatever is reported.\<close>

lemma deliver_settled:
  "j < length (jobs w) \<Longrightarrow> deferred (jobs w ! j) \<noteq> Pending \<Longrightarrow>
   deferred (jobs (fst (deliver ev w)) ! j) = deferred (jobs w ! j)"
  by (cases ev) (auto simp: settle_def nth_list_update)

text \<open>
  Every call accounts for the jobs in flight: the pushes of its effects, added to the jobs
  in flight before, are the pops of its effects added to the jobs in flight after. So the
  busy indicator has been popped once for every job that was pushed for and has settled.
\<close>

lemma in_flight_snoc:
  "in_flight (js @ [p]) = in_flight js + (if deferred p = Pending then 1 else 0)"
  by (simp add: in_flight_def)

lemma in_flight_cons:
  "in_flight (p # js) = (if deferred p = Pending then 1 else 0) + in_flight js"
  by (simp add: in_flight_def)

lemma in_flight_update:
  "j < length js \<Longrightarrow>
   in_flight (js[j := p]) + (if deferred (js ! j) = Pending then 1 else 0) =
   in_flight js + (if deferred p = Pending then 1 else 0)"
proof (induction js arbitrary: j)
  case Nil
  then show ?case by simp
next
  case (Cons a js)
  show ?case
  proof (cases j)
    case 0
    then show ?thesis by (simp add: in_flight_cons)
  next
    case (Suc k)
    with Cons.prems have "k < length js" by simp
    from Cons.IH [OF this] have
      "in_flight (js[k := p]) + (if deferred (js ! k) = Pending then 1 else 0) =
       in_flight js + (if deferred p = Pending then 1 else 0)" .
    then have
      "(if deferred a = Pending then 1 else 0) + in_flight (js[k := p]) +
         (if deferred (js ! k) = Pending then 1 else 0) =
       (if deferred a = Pending then 1 else 0) + in_flight js +
         (if deferred p = Pending then 1 else 0)"
      by linarith
    then show ?thesis using Suc by (simp only: in_flight_cons list_update_code nth_Cons_Suc)
  qed
qed

lemma refresh_balance:
  "count_list (snd (refresh h w)) PushPending + in_flight (jobs w) =
   count_list (snd (refresh h w)) PopPending + in_flight (jobs (fst (refresh h w)))"
  by (auto simp: refresh_def loadAndGetImageUrl_def in_flight_snoc split: option.splits)

lemma info_setValue_balance:
  assumes "\<And>v w. count_list (snd (l v w)) PushPending + in_flight (jobs w) =
                  count_list (snd (l v w)) PopPending + in_flight (jobs (fst (l v w)))"
  shows "count_list (snd (info_setValue l v w)) PushPending + in_flight (jobs w) =
         count_list (snd (info_setValue l v w)) PopPending +
         in_flight (jobs (fst (info_setValue l v w)))"
  using assms [of v "w\<lparr>infoValue := v\<rparr>"] by (simp add: info_setValue_def split_beta)

lemma updateUI_with_balance:
  assumes "\<And>v w. count_list (snd (l v w)) PushPending + in_flight (jobs w) =
                  count_list (snd (l v w)) PopPending + in_flight (jobs (fst (l v w)))"
  shows "count_list (snd (updateUI_with l h w)) PushPending + in_flight (jobs w) =
         count_list (snd (updateUI_with l h w)) PopPending +
         in_flight (jobs (fst (updateUI_with l h w)))"
  using info_setValue_balance [of l "getFilename h w" w, OF assms]
        refresh_balance [of h "fst (info_setValue l (getFilename h w) w)"]
  by (simp add: updateUI_with_def split_beta)

lemma dispatch_with_balance:
  assumes "\<And>w. count_list (snd (u w)) PushPending + in_flight (jobs w) =
                count_list (snd (u w)) PopPending + in_flight (jobs (fst (u w)))"
  shows "count_list (snd (dispatch_with u v ls w)) PushPending + in_flight (jobs w) =
         count_list (snd (dispatch_with u v ls w)) PopPending +
         in_flight (jobs (fst (dispatch_with u v ls w)))"
proof (induction ls arbitrary: w)
  case Nil
  then show ?case by simp
next
  case (Cons l ls)
  show ?case
  proof (cases l)
    case UpdateUI
    from assms [of w] Cons.IH [of "fst (u w)"] UpdateUI
    show ?thesis by (simp add: split_beta)
  next
    case (External k)
    with Cons.IH [of w] show ?thesis by (simp add: split_beta)
  qed
qed

lemma setValue_with_balance:
  assumes "\<And>w. count_list (snd (u w)) PushPending + in_flight (jobs w) =
                count_list (snd (u w)) PopPending + in_flight (jobs (fst (u w)))"
  shows "count_list (snd (setValue_with u f w)) PushPending + in_flight (jobs w) =
         count_list (snd (setValue_with u f w)) PopPending +
         in_flight (jobs (fst (setValue_with u f w)))"
  using dispatch_with_balance [of u f "bindings w" "w\<lparr>currentFile := f\<rparr>", OF assms]
  by (simp add: setValue_with_def Let_def split_beta)

lemma updateUI_inner_balance:
  "count_list (snd (updateUI_inner h w)) PushPending + in_flight (jobs w) =
   count_list (snd (updateUI_inner h w)) PopPending + in_flight (jobs (fst (updateUI_inner h w)))"
  unfolding updateUI_inner_def by (rule updateUI_with_balance) simp

lemma updateUI_balance:
  "count_list (snd (updateUI h w)) PushPending + in_flight (jobs w) =
   count_list (snd (updateUI h w)) PopPending + in_flight (jobs (fst (updateUI h w)))"
  unfolding updateUI_def
proof (rule updateUI_with_balance)
  fix v w
  show "count_list (snd (onInfoChange_with (updateUI_inner h) v w)) PushPending +
          in_flight (jobs w) =
        count_list (snd (onInfoChange_with (updateUI_inner h) v w)) PopPending +
          in_flight (jobs (fst (onInfoChange_with (updateUI_inner h) v w)))"
    using setValue_with_balance [of "updateUI_inner h" None w, OF updateUI_inner_balance]
    by (simp add: onInfoChange_with_def)
qed

lemma setValue_balance:
  "count_list (snd (setValue h f w)) PushPending + in_flight (jobs w) =
   count_list (snd (setValue h f w)) PopPending + in_flight (jobs (fst (setValue h f w)))"
  unfolding setValue_def by (rule setValue_with_balance) (rule updateUI_balance)

lemma onInfoChange_balance:
  "count_list (snd (onInfoChange h v w)) PushPending + in_flight (jobs w) =
   count_list (snd (onInfoChange h v w)) PopPending + in_flight (jobs (fst (onInfoChange h v w)))"
  using setValue_balance [of h None w] by (simp add: onInfoChange_source)

lemma onFileSelected_balance:
  "count_list (snd (onFileSelected h e w)) PushPending + in_flight (jobs w) =
   count_list (snd (onFileSelected h e w)) PopPending +
   in_flight (jobs (fst (onFileSelected h e w)))"
  using setValue_balance [of h "filtered h w e" "w\<lparr>inputClearing := False\<rparr>"]
  by (simp add: onFileSelected_def Let_def split_beta)

lemma onDrop_balance:
  "count_list (snd (onDrop h e w)) PushPending + in_flight (jobs w) =
   count_list (snd (onDrop h e w)) PopPending + in_flight (jobs (fst (onDrop h e w)))"
  using setValue_balance [of h "filtered h w e" w]
  by (auto simp: onDrop_def split_beta split: option.splits)

lemma settle_balance:
  assumes "j < length (jobs w)" and "d \<noteq> Pending"
  shows "count_list (snd (settle j d w)) PushPending + in_flight (jobs w) =
         count_list (snd (settle j d w)) PopPending + in_flight (jobs (fst (settle j d w)))"
proof (cases "deferred (jobs w ! j) = Pending")
  case True
  from in_flight_update [OF assms(1), of "(jobs w ! j)\<lparr>deferred := d\<rparr>"] True assms(2)
  show ?thesis by (cases d) (simp_all add: settle_def)
next
  case False
  then show ?thesis by (simp add: settle_def)
qed

lemma deliver_balance:
  "count_list (snd (deliver ev w)) PushPending + in_flight (jobs w) =
   count_list (snd (deliver ev w)) PopPending + in_flight (jobs (fst (deliver ev w)))"
proof (cases ev)
  case (ReaderLoad j url)
  show ?thesis
  proof (cases "j < length (jobs w)")
    case True
    from in_flight_update [OF True, of "(jobs w ! j)\<lparr>imgs := imgs (jobs w ! j) @ [url]\<rparr>"]
      ReaderLoad True
    show ?thesis by simp
  next
    case False
    with ReaderLoad show ?thesis by simp
  qed
next
  case (ImgLoad j i nw nh c)
  show ?thesis
  proof (cases "j < length (jobs w)")
    case True
    from settle_balance [OF True, of Rejected]
         settle_balance [OF True, of "Resolved (imgs (jobs w ! j) ! i)"] ImgLoad
    show ?thesis by simp
  next
    case False
    with ImgLoad show ?thesis by simp
  qed
qed simp_all

lemma perform_balance:
  "count_list (snd (perform h a w)) PushPending + in_flight (jobs w) =
   count_list (snd (perform h a w)) PopPending + in_flight (jobs (fst (perform h a w)))"
proof (cases a)
  case (InfoChanged v)
  with onInfoChange_balance [of h v "w\<lparr>infoValue := v\<rparr>"] show ?thesis by simp
qed (simp_all add: onFileSelected_balance onDrop_balance setValue_balance deliver_balance
                   setDisabled_def Input_setDisabled_def Widget_setDisabled_def connect_def)

lemma perform_all_balance:
  "count_list (snd (perform_all h as w)) PushPending + in_flight (jobs w) =
   count_list (snd (perform_all h as w)) PopPending +
   in_flight (jobs (fst (perform_all h as w)))"
proof (induction as arbitrary: w)
  case Nil
  then show ?case by simp
next
  case (Cons a as)
  from perform_balance [of h a w] Cons.IH [of "fst (perform h a w)"]
  show ?case by (simp add: split_beta)
qed

text \<open>The widget with the JPEG selected, after the reader has delivered a data URL.\<close>

lemma decoding_widget_eq:
  "decoding_widget =
     \<lparr>inputValue = [], infoValue = ''a.jpg'', currentFile = Some 0,
      accept = Some [''image/*''], disabled = False, supported = True,
      inputClearing = False, showDropTarget = True, thumbnailSizeLimit = 20,
      jobs = [\<lparr>reading = Some 0, imgs = [''data:x''], deferred = Pending\<rparr>],
      bindings = [UpdateUI]\<rparr>"
  by (simp add: decoding_widget_def jpeg_selected_eq)

lemma select_jpeg_then:
  "perform_all demo_store (FileSelected (Some 0) # as) demo_widget =
     (fst (perform_all demo_store as jpeg_selected),
      [InputCleared, Emit (Some 0), InfoSetValue ''a.jpg'', EmptyClass False, PushPending,
       ReadAsDataURL 0 0, ClickOff] @ snd (perform_all demo_store as jpeg_selected))"
  by (simp add: select_jpeg jpeg_selected_eq split_beta)

text \<open>
  Claim C7. The busy indicator is popped once when the deferred of a preview settles, on
  both paths of the image's \<open>load\<close> (\<open>deliver_image_loaded\<close>, \<open>deliver_settled\<close>,
  \<open>perform_all_balance\<close>), and a natural width of 0, a natural height of 0 or an incomplete
  image gives the fallback icon. On the other failure paths the source breaks the claim:
  it installs no handler for an error of the reader or of the image. The JPEG is selected
  on the concrete widget, which pushes the busy indicator and starts the read. When the
  read fails, or when the read succeeds and the image fails to decode, no code runs: the
  deferred stays pending, the fallback icon is not appended, and the busy indicator is
  not popped.
\<close>

theorem preview_error_stays_busy:
  "perform_all demo_store [FileSelected (Some 0), Report (ReaderError 0)] demo_widget =
     (jpeg_selected,
      [InputCleared, Emit (Some 0), InfoSetValue ''a.jpg'', EmptyClass False, PushPending,
       ReadAsDataURL 0 0, ClickOff]) \<and>
   deferred (jobs jpeg_selected ! 0) = Pending \<and>
   perform_all demo_store
     [FileSelected (Some 0), Report (ReaderLoad 0 ''data:x''), Report (ImgError 0 0)]
     demo_widget =
     (decoding_widget,
      [InputCleared, Emit (Some 0), InfoSetValue ''a.jpg'', EmptyClass False, PushPending,
       ReadAsDataURL 0 0, ClickOff, ImgSrc 0 ''data:x'']) \<and>
   deferred (jobs decoding_widget ! 0) = Pending"
proof -
  have 1: "perform_all demo_store [Report (ReaderError 0)] jpeg_selected = (jpeg_selected, [])"
    by simp
  have 2: "perform_all demo_store [Report (ReaderLoad 0 ''data:x''), Report (ImgError 0 0)]
      jpeg_selected = (decoding_widget, [ImgSrc 0 ''data:x''])"
    by (simp add: decoding_widget_eq jpeg_selected_eq)
  have 3: "deferred (jobs jpeg_selected ! 0) = Pending"
    by (simp add: jpeg_selected_eq)
  have 4: "deferred (jobs decoding_widget ! 0) = Pending"
    by (simp add: decoding_widget_eq)
  show ?thesis
    by (simp only: select_jpeg_then 1 2 3 4 fst_conv snd_conv append_Nil2) simp
qed

end
